theory Spec2Isabelle
  imports Complex_Main
begin

section \<open>Python values and exceptions\<close>

text \<open>
  The exceptions that the modelled part of \<^verbatim>\<open>rinex_verification.py\<close> can raise.
  A function of the script that may raise returns \<open>error + 'a\<close>, with \<open>Inl\<close> the
  exception. Python floats are modelled as real numbers (no rounding error, no NaN, no
  infinity) and Python ints as \<open>int\<close>.
\<close>

datatype error = IOError | KeyError | IndexError | ValueError | TypeError | OverflowError

definition bind :: "error + 'a \<Rightarrow> ('a \<Rightarrow> error + 'b) \<Rightarrow> error + 'b" where
  "bind m f = (case m of Inl e \<Rightarrow> Inl e | Inr x \<Rightarrow> f x)"

fun foldM :: "('a \<Rightarrow> 'b \<Rightarrow> error + 'b) \<Rightarrow> 'a list \<Rightarrow> 'b \<Rightarrow> error + 'b" where
  "foldM f [] acc = Inr acc"
| "foldM f (x # xs) acc = (case f x acc of Inl e \<Rightarrow> Inl e | Inr acc' \<Rightarrow> foldM f xs acc')"

fun traverse :: "('a \<Rightarrow> error + 'b) \<Rightarrow> 'a list \<Rightarrow> error + 'b list" where
  "traverse f [] = Inr []"
| "traverse f (x # xs) =
     (case f x of
        Inl e \<Rightarrow> Inl e
      | Inr y \<Rightarrow> (case traverse f xs of Inl e \<Rightarrow> Inl e | Inr ys \<Rightarrow> Inr (y # ys)))"

text \<open>\<^verbatim>\<open>int(x)\<close> of a float: truncation towards zero.\<close>

definition py_trunc :: "real \<Rightarrow> int" where
  "py_trunc x = (if 0 \<le> x then \<lfloor>x\<rfloor> else \<lceil>x\<rceil>)"

text \<open>Rounding to the nearest integer, ties to the even neighbour, as \<^verbatim>\<open>round\<close> does.\<close>

definition round_half_even :: "real \<Rightarrow> int" where
  "round_half_even x =
     (let f = \<lfloor>x\<rfloor>; d = x - of_int f
      in if d < 1 / 2 then f
         else if 1 / 2 < d then f + 1
         else if even f then f else f + 1)"

text \<open>\<^verbatim>\<open>round(x, 1)\<close>: one decimal place.\<close>

definition py_round1 :: "real \<Rightarrow> real" where
  "py_round1 x = of_int (round_half_even (x * 10)) / 10"

section \<open>The datetime library, as far as the script uses it\<close>

text \<open>
  A \<^verbatim>\<open>timedelta\<close> is normalised: \<open>0 \<le> seconds < 86400\<close>,
  \<open>0 \<le> microseconds < 1000000\<close>, and at most 999999999 days in magnitude.
\<close>

record timedelta =
  td_days :: int
  td_seconds :: int
  td_microseconds :: int

definition td_normalise :: "int \<Rightarrow> int \<Rightarrow> int \<Rightarrow> timedelta" where
  "td_normalise d s us =
     (let s1 = s + us div 1000000
      in \<lparr>td_days = d + s1 div 86400, td_seconds = s1 mod 86400,
          td_microseconds = us mod 1000000\<rparr>)"

definition timedelta_new :: "int \<Rightarrow> int \<Rightarrow> int \<Rightarrow> error + timedelta" where
  "timedelta_new d s us =
     (let td = td_normalise d s us
      in if 999999999 < \<bar>td_days td\<bar> then Inl OverflowError else Inr td)"

text \<open>\<^verbatim>\<open>datetime.timedelta(seconds=x)\<close>; a fraction is rounded to the microsecond.\<close>

definition timedelta_seconds :: "real \<Rightarrow> error + timedelta" where
  "timedelta_seconds x = timedelta_new 0 0 (round_half_even (x * 1000000))"

text \<open>
  A \<^verbatim>\<open>datetime\<close>. The calendar date is kept as its proleptic Gregorian ordinal
  (\<^verbatim>\<open>date.toordinal()\<close>, day 1 is 0001-01-01), which the library's own arithmetic
  goes through; the ordinal of a datetime is between 1 and \<open>MAXORDINAL\<close> (9999-12-31).
\<close>

record datetime =
  dt_ordinal :: int
  dt_hour :: int
  dt_minute :: int
  dt_second :: int
  dt_microsecond :: int

definition MAXORDINAL :: int where
  "MAXORDINAL = 3652059"

definition is_leap :: "int \<Rightarrow> bool" where
  "is_leap y = (y mod 4 = 0 \<and> (y mod 100 \<noteq> 0 \<or> y mod 400 = 0))"

definition days_before_year :: "int \<Rightarrow> int" where
  "days_before_year y =
     (let y1 = y - 1 in y1 * 365 + y1 div 4 - y1 div 100 + y1 div 400)"

definition DAYS_BEFORE_MONTH :: "int list" where
  "DAYS_BEFORE_MONTH = [- 1, 0, 31, 59, 90, 120, 151, 181, 212, 243, 273, 304, 334]"

definition days_before_month :: "int \<Rightarrow> int \<Rightarrow> int" where
  "days_before_month y m =
     DAYS_BEFORE_MONTH ! nat m + (if 2 < m \<and> is_leap y then 1 else 0)"

definition ymd2ord :: "int \<Rightarrow> int \<Rightarrow> int \<Rightarrow> int" where
  "ymd2ord y m d = days_before_year y + days_before_month y m + d"

text \<open>\<^verbatim>\<open>datetime.datetime(y, m, d)\<close> for a valid date: midnight of that day.\<close>

definition datetime_ymd :: "int \<Rightarrow> int \<Rightarrow> int \<Rightarrow> datetime" where
  "datetime_ymd y m d =
     \<lparr>dt_ordinal = ymd2ord y m d, dt_hour = 0, dt_minute = 0, dt_second = 0,
      dt_microsecond = 0\<rparr>"

text \<open>\<^verbatim>\<open>datetime + timedelta\<close>: OverflowError when the date leaves years 1 to 9999.\<close>

definition datetime_add :: "datetime \<Rightarrow> timedelta \<Rightarrow> error + datetime" where
  "datetime_add dt td =
     (let delta = td_normalise (dt_ordinal dt + td_days td)
                    (dt_hour dt * 3600 + dt_minute dt * 60 + dt_second dt + td_seconds td)
                    (dt_microsecond dt + td_microseconds td);
          hour = td_seconds delta div 3600;
          rem = td_seconds delta mod 3600
      in if 0 < td_days delta \<and> td_days delta \<le> MAXORDINAL
         then Inr \<lparr>dt_ordinal = td_days delta, dt_hour = hour, dt_minute = rem div 60,
                   dt_second = rem mod 60, dt_microsecond = td_microseconds delta\<rparr>
         else Inl OverflowError)"


section \<open>GPS epoch helpers\<close>

definition GPS_EPOCH :: datetime where
  "GPS_EPOCH = datetime_ymd 1980 1 6"

definition gps2time :: "real \<Rightarrow> error + datetime" where
  "gps2time gpstime = bind (timedelta_seconds gpstime) (datetime_add GPS_EPOCH)"


section \<open>Strings\<close>

text \<open>\<^verbatim>\<open>str(i)\<close> of an int: its decimal digits, with a minus sign when negative.\<close>

definition digit_char :: "nat \<Rightarrow> char" where
  "digit_char n = ''0123456789'' ! n"

fun str_nat :: "nat \<Rightarrow> string" where
  "str_nat n = (if n < 10 then [digit_char n] else str_nat (n div 10) @ [digit_char (n mod 10)])"

declare str_nat.simps [simp del]

definition str_int :: "int \<Rightarrow> string" where
  "str_int i = (if i < 0 then CHR ''-'' # str_nat (nat (- i)) else str_nat (nat i))"

text \<open>\<^verbatim>\<open>s.zfill(width)\<close>: zeros are inserted after a leading sign.\<close>

definition zfill :: "nat \<Rightarrow> string \<Rightarrow> string" where
  "zfill width s =
     (if width \<le> length s then s
      else (case s of
              c # rest \<Rightarrow>
                if c = CHR ''+'' \<or> c = CHR ''-''
                then c # replicate (width - length s) CHR ''0'' @ rest
                else replicate (width - length s) CHR ''0'' @ s
            | [] \<Rightarrow> replicate width CHR ''0''))"

definition is_digit :: "char \<Rightarrow> bool" where
  "is_digit c = (c \<in> set ''0123456789'')"

definition digit_val :: "char \<Rightarrow> nat" where
  "digit_val c = length (takeWhile (\<lambda>d. d \<noteq> c) ''0123456789'')"

definition parse_nat :: "string \<Rightarrow> nat" where
  "parse_nat s = foldl (\<lambda>a c. 10 * a + digit_val c) 0 s"

text \<open>The fields of a string between occurrences of a separator character.\<close>

fun split_on :: "char \<Rightarrow> string \<Rightarrow> string list" where
  "split_on c [] = [[]]"
| "split_on c (x # xs) =
     (if x = c then [] # split_on c xs
      else (case split_on c xs of w # ws \<Rightarrow> (x # w) # ws | [] \<Rightarrow> [[x]]))"

text \<open>\<^verbatim>\<open>sub in s\<close> for strings: \<open>sub\<close> occurs in \<open>s\<close> as a contiguous substring.\<close>

fun starts_with :: "string \<Rightarrow> string \<Rightarrow> bool" where
  "starts_with [] s = True"
| "starts_with (a # as) [] = False"
| "starts_with (a # as) (b # bs) = (a = b \<and> starts_with as bs)"

fun contains :: "string \<Rightarrow> string \<Rightarrow> bool" where
  "contains sub [] = (sub = [])"
| "contains sub (c # cs) = (starts_with sub (c # cs) \<or> contains sub cs)"

section \<open>Formatting and parsing of datetimes\<close>

text \<open>The library's \<^verbatim>\<open>_ord2ymd\<close>: ordinal to (year, month, day).\<close>

definition DAYS_IN_MONTH :: "int list" where
  "DAYS_IN_MONTH = [- 1, 31, 28, 31, 30, 31, 30, 31, 31, 30, 31, 30, 31]"

definition ord2ymd :: "int \<Rightarrow> int \<times> int \<times> int" where
  "ord2ymd n0 =
     (let n = n0 - 1;
          n400 = n div 146097; n = n mod 146097;
          n100 = n div 36524; n = n mod 36524;
          n4 = n div 1461; n = n mod 1461;
          n1 = n div 365; n = n mod 365;
          year = n400 * 400 + 1 + n100 * 100 + n4 * 4 + n1
      in if n1 = 4 \<or> n100 = 4 then (year - 1, 12, 31)
         else
           (let leapyear = (n1 = 3 \<and> (n4 \<noteq> 24 \<or> n100 = 3));
                month = (n + 50) div 32;
                preceding = DAYS_BEFORE_MONTH ! nat month + (if 2 < month \<and> leapyear then 1 else 0)
            in if n < preceding
               then (let month' = month - 1;
                         preceding' = preceding
                           - (DAYS_IN_MONTH ! nat month' + (if month' = 2 \<and> leapyear then 1 else 0))
                     in (year, month', n - preceding' + 1))
               else (year, month, n - preceding + 1)))"

text \<open>
  \<^verbatim>\<open>strftime('%d-%m-%Y at %H:%M:%S')\<close>, the timestamp format of the report, and
  \<^verbatim>\<open>strftime("%H:%M")\<close>, the format of the plots' time axis.
\<close>

definition strftime_report :: "datetime \<Rightarrow> string" where
  "strftime_report dt =
     (case ord2ymd (dt_ordinal dt) of
        (y, m, d) \<Rightarrow>
          zfill 2 (str_int d) @ ''-'' @ zfill 2 (str_int m) @ ''-'' @ zfill 4 (str_int y)
          @ '' at '' @ zfill 2 (str_int (dt_hour dt)) @ '':'' @ zfill 2 (str_int (dt_minute dt))
          @ '':'' @ zfill 2 (str_int (dt_second dt)))"

definition strftime_HM :: "datetime \<Rightarrow> string" where
  "strftime_HM dt = zfill 2 (str_int (dt_hour dt)) @ '':'' @ zfill 2 (str_int (dt_minute dt))"

text \<open>
  \<^verbatim>\<open>datetime.strptime(s, '%Y_%j_%H_%M_%S')\<close>. The library matches the regular
  expression of the format (four digits for \<^verbatim>\<open>%Y\<close>; one to three digits with value
  1 to 366 for \<^verbatim>\<open>%j\<close>; one or two digits with value up to 23, 59 and 61 for
  \<^verbatim>\<open>%H\<close>, \<^verbatim>\<open>%M\<close> and \<^verbatim>\<open>%S\<close>) against the whole string and raises ValueError
  when it does not match. The date is day \<^verbatim>\<open>%j\<close> of the year, counted on from
  1 January; the datetime constructor refuses year 0, a date after 9999 and a second
  above 59.
\<close>

definition digits_upto :: "nat \<Rightarrow> nat \<Rightarrow> nat \<Rightarrow> string \<Rightarrow> bool" where
  "digits_upto maxlen lo hi s =
     (s \<noteq> [] \<and> length s \<le> maxlen \<and> list_all is_digit s \<and> lo \<le> parse_nat s \<and> parse_nat s \<le> hi)"

definition strptime_Yj_HMS :: "string \<Rightarrow> error + datetime" where
  "strptime_Yj_HMS s =
     (case split_on CHR ''_'' s of
        [Y, j, H, M, S] \<Rightarrow>
          if length Y = 4 \<and> list_all is_digit Y \<and> digits_upto 3 1 366 j
             \<and> digits_upto 2 0 23 H \<and> digits_upto 2 0 59 M \<and> digits_upto 2 0 61 S
          then (let year = int (parse_nat Y);
                    ordinal = ymd2ord year 1 1 + (int (parse_nat j) - 1)
                in if year < 1 \<or> MAXORDINAL < ordinal \<or> 59 < parse_nat S then Inl ValueError
                   else Inr \<lparr>dt_ordinal = ordinal, dt_hour = int (parse_nat H),
                             dt_minute = int (parse_nat M), dt_second = int (parse_nat S),
                             dt_microsecond = 0\<rparr>)
          else Inl ValueError
      | _ \<Rightarrow> Inl ValueError)"

section \<open>Decimal hours\<close>

text \<open>
  \<^verbatim>\<open>dec_hour % 1\<close> on a float is the fractional part, in \<open>[0, 1)\<close>;
  \<^verbatim>\<open>minutes % 1\<close> is taken of the int \<^verbatim>\<open>minutes\<close>.
\<close>

definition dec_hour_to_hms :: "real \<Rightarrow> string \<times> string \<times> string" where
  "dec_hour_to_hms dec_hour =
     (let hours = py_trunc dec_hour;
          minutes = py_trunc (60 * frac dec_hour);
          seconds = 60 * (minutes mod 1)
      in (zfill 2 (str_int hours), zfill 2 (str_int minutes), zfill 2 (str_int seconds)))"

section \<open>Tables\<close>

text \<open>
  A cell of the navigation table, as pandas hands it to the script: a number or a string.
  A row of the navigation table is the list of its cells by column name. A row of the
  RINEX table has the columns that the script reads. A row of the merged table carries its
  index label, the two rows it was joined from and the join key.
\<close>

datatype cell = Num real | Str string

type_synonym nav_row = "(string \<times> cell) list"

record rinex_row =
  year :: int
  day_of_year :: int
  decimal_hour :: real
  latitude_decimal_degree :: real
  longitude_decimal_degree :: real

record mrow =
  label :: nat
  rinex :: rinex_row
  nav :: nav_row
  day_seconds :: int

text \<open>\<^verbatim>\<open>df.col[k]\<close> on a column with integer index labels: the row labelled \<open>k\<close>.\<close>

definition loc :: "('a mrow_scheme) list \<Rightarrow> int \<Rightarrow> error + 'a mrow_scheme" where
  "loc df k =
     (case find (\<lambda>r. int (label r) = k) df of None \<Rightarrow> Inl KeyError | Some r \<Rightarrow> Inr r)"

section \<open>Start and stop of the logging period\<close>

definition hms_stamp :: "string \<Rightarrow> string \<Rightarrow> real \<Rightarrow> string" where
  "hms_stamp y d t =
     (case dec_hour_to_hms t of
        (hours, minutes, seconds) \<Rightarrow>
          y @ ''_'' @ d @ ''_'' @ hours @ ''_'' @ minutes @ ''_'' @ seconds)"

definition start_stop_df_m :: "('a mrow_scheme) list \<Rightarrow> error + (datetime \<times> datetime \<times> int)" where
  "start_stop_df_m df =
     bind (loc df 0) (\<lambda>r0.
       let y = str_int (year (rinex r0));
           d = zfill 3 (str_int (day_of_year (rinex r0)));
           time_first = decimal_hour (rinex r0)
       in bind (loc df (int (length df) - 1)) (\<lambda>rl.
            let time_last = decimal_hour (rinex rl)
            in bind (strptime_Yj_HMS (hms_stamp y d time_first)) (\<lambda>first.
                 bind (strptime_Yj_HMS (hms_stamp y d time_last)) (\<lambda>last.
                   if time_last < time_first then Inr (last, first, 1)
                   else Inr (first, last, 0)))))"


section \<open>Degrees, minutes and seconds\<close>

text \<open>
  \<^verbatim>\<open>s.replace(c, r)\<close> for a one-character pattern, \<^verbatim>\<open>s.split()\<close> (fields between
  runs of whitespace, none of them empty) and the whitespace characters of ASCII.
  Strings are taken to be ASCII.
\<close>

definition replace1 :: "char \<Rightarrow> string \<Rightarrow> string \<Rightarrow> string" where
  "replace1 c r s = concat (map (\<lambda>x. if x = c then r else [x]) s)"

definition is_space :: "char \<Rightarrow> bool" where
  "is_space c =
     (c \<in> set [CHR '' '', CHR 0x09, CHR 0x0A, CHR 0x0B, CHR 0x0C, CHR 0x0D,
                CHR 0x1C, CHR 0x1D, CHR 0x1E, CHR 0x1F])"

fun split_ws :: "string \<Rightarrow> string list" where
  "split_ws [] = []"
| "split_ws (c # cs) =
     (if is_space c then split_ws cs
      else if cs \<noteq> [] \<and> \<not> is_space (hd cs)
           then (case split_ws cs of w # ws \<Rightarrow> (c # w) # ws | [] \<Rightarrow> [[c]])
           else [c] # split_ws cs)"

text \<open>
  \<^verbatim>\<open>float(s)\<close> and \<^verbatim>\<open>int(s)\<close> of a string are Python built-ins; they are parameters
  \<open>flt\<close> and \<open>intp\<close> of the model, \<open>None\<close> where the built-in raises ValueError.
\<close>

definition parse_with :: "(string \<Rightarrow> 'a option) \<Rightarrow> string \<Rightarrow> error + 'a" where
  "parse_with p s = (case p s of None \<Rightarrow> Inl ValueError | Some v \<Rightarrow> Inr v)"

definition py_float :: "(string \<Rightarrow> real option) \<Rightarrow> cell \<Rightarrow> error + real" where
  "py_float flt c = (case c of Num r \<Rightarrow> Inr r | Str s \<Rightarrow> parse_with flt s)"

definition py_int :: "(string \<Rightarrow> int option) \<Rightarrow> cell \<Rightarrow> error + int" where
  "py_int intp c = (case c of Num r \<Rightarrow> Inr (py_trunc r) | Str s \<Rightarrow> parse_with intp s)"

text \<open>The five replacements of \<^verbatim>\<open>dms_to_dec\<close>, in the order of the source.\<close>

definition dms_spaced :: "string \<Rightarrow> string" where
  "dms_spaced s =
     replace1 CHR ''S'' '' S'' (replace1 CHR ''W'' '' W'' (replace1 CHR ''N'' '' N''
       (replace1 CHR ''E'' '' E'' (replace1 CHR '':'' '' '' s))))"

text \<open>
  \<^verbatim>\<open>dms_to_dec\<close>. The argument is a cell; \<^verbatim>\<open>str\<close> of a number has a single field,
  so a number is returned as it is.
\<close>

definition dms_to_dec :: "(string \<Rightarrow> real option) \<Rightarrow> cell \<Rightarrow> error + cell" where
  "dms_to_dec flt x =
     (case x of
        Num r \<Rightarrow> Inr (Num r)
      | Str s \<Rightarrow>
          (let dms = dms_spaced s; fields = split_ws dms
           in if length fields < 3 then Inr (Str s)
              else
                bind (parse_with flt (fields ! 0)) (\<lambda>deg.
                bind (parse_with flt (fields ! 1)) (\<lambda>min.
                bind (if length fields = 4 then parse_with flt (fields ! 2) else Inr 0) (\<lambda>sec.
                  if contains ''S'' dms then Inr (Num ((deg + (min / 60) + (sec / 3600)) * (- 1)))
                  else if contains ''W'' dms then Inr (Num ((deg + (min / 60) + (sec / 3600)) * (- 1)))
                  else Inr (Num (deg + (min / 60) + (sec / 3600))))))))"

section \<open>Column names\<close>

text \<open>
  \<^verbatim>\<open>column_name\<close> and \<^verbatim>\<open>column_name_single\<close>: the last column whose name contains
  the wanted strings, the empty string when there is none.
\<close>

definition column_name :: "string list \<Rightarrow> string \<Rightarrow> string list \<Rightarrow> string" where
  "column_name cols str1 strings =
     foldl (\<lambda>column_n column.
              if contains str1 column
              then foldl (\<lambda>cn s. if contains s column then column else cn) column_n strings
              else column_n) [] cols"

definition column_name_single :: "string list \<Rightarrow> string list \<Rightarrow> string" where
  "column_name_single cols strings =
     foldl (\<lambda>column_n column.
              foldl (\<lambda>cn s. if contains s column then column else cn) column_n strings) [] cols"

section \<open>Reading and merging the two tables\<close>

text \<open>
  The navigation table as \<^verbatim>\<open>pd.read_csv\<close> returns it: its column names and its rows.
\<close>

record nav_frame =
  columns :: "string list"
  rows :: "nav_row list"

text \<open>\<^verbatim>\<open>df[key] = df[key].apply(f)\<close>: KeyError without such a column.\<close>

definition apply_col :: "(cell \<Rightarrow> error + cell) \<Rightarrow> string \<Rightarrow> nav_frame \<Rightarrow> error + nav_frame" where
  "apply_col f key df =
     (if key \<notin> set (columns df) then Inl KeyError
      else bind (traverse (traverse (\<lambda>(k, v). if k = key then bind (f v) (\<lambda>v'. Inr (k, v'))
                                                   else Inr (k, v))) (rows df))
             (\<lambda>rs. Inr (df\<lparr>rows := rs\<rparr>)))"

text \<open>The cell of a row in a column.\<close>

definition cell_of :: "string \<Rightarrow> nav_row \<Rightarrow> error + cell" where
  "cell_of key row = (case map_of row key of None \<Rightarrow> Inl KeyError | Some c \<Rightarrow> Inr c)"

text \<open>
  Lines 218 to 224: a TRINAV file has a trailing comma, which ends up in the name and in
  the cells of the last column. \<^verbatim>\<open>',' in s\<close> raises TypeError on a number.
\<close>

definition strip_comma :: "cell \<Rightarrow> error + cell" where
  "strip_comma c =
     (case c of
        Num r \<Rightarrow> Inl TypeError
      | Str s \<Rightarrow> Inr (Str (if contains '','' s then butlast s else s)))"

definition trinav_cleanup :: "nav_frame \<Rightarrow> error + nav_frame" where
  "trinav_cleanup df =
     (if columns df = [] then Inl IndexError
      else
        (let lastc = last (columns df);
             df1 = (if contains '','' lastc
                    then \<lparr>columns = butlast (columns df) @ [butlast lastc],
                          rows = map (map (\<lambda>(k, v). if k = lastc then (butlast lastc, v) else (k, v)))
                                   (rows df)\<rparr>
                    else df)
         in apply_col strip_comma (last (columns df1)) df1))"

text \<open>Lines 232 to 237: the gyro column, when it is the last one, is converted to floats.\<close>

definition to_float :: "(string \<Rightarrow> real option) \<Rightarrow> cell \<Rightarrow> error + cell" where
  "to_float flt s = bind (py_float flt s) (\<lambda>r. Inr (Num r))"

definition gyro_to_float :: "(string \<Rightarrow> real option) \<Rightarrow> string \<Rightarrow> nav_frame \<Rightarrow> error + nav_frame" where
  "gyro_to_float flt NAV df =
     (if columns df = [] then Inl IndexError
      else
        (let lastc = last (columns df)
         in if contains ''TRINAV'' NAV
            then (if contains ''Gyro'' lastc \<or> contains ''gyro'' lastc
                  then apply_col (to_float flt) lastc df else Inr df)
            else (if contains ''THDG'' lastc then apply_col (to_float flt) lastc df else Inr df)))"

text \<open>Lines 241 to 244: latitude and longitude columns are converted to decimal degrees.\<close>

definition latlon_to_dec :: "(string \<Rightarrow> real option) \<Rightarrow> nav_frame \<Rightarrow> error + nav_frame" where
  "latlon_to_dec flt df =
     foldM (\<lambda>key. foldM (\<lambda>s d. if contains s key then apply_col (dms_to_dec flt) key d else Inr d)
                     [''lat'', ''Lat'', ''LAT'', ''lon'', ''Lon'', ''LON''])
       (columns df) df"

text \<open>Lines 263 to 271: the join key of a RINEX row and of a navigation row.\<close>

definition day_seconds_rinex :: "real \<Rightarrow> int" where
  "day_seconds_rinex x = py_trunc (py_round1 (x * 3600))"

definition day_seconds_nav :: "int \<Rightarrow> int" where
  "day_seconds_nav x = x mod 86400"

definition time_column :: "string \<Rightarrow> string list \<Rightarrow> string" where
  "time_column NAV cols =
     (if contains ''TRINAV'' NAV then ''Time'' else column_name_single cols [''GPSTIME''])"

definition nav_day_seconds ::
  "(string \<Rightarrow> int option) \<Rightarrow> string \<Rightarrow> nav_frame \<Rightarrow> error + (nav_row \<times> int) list" where
  "nav_day_seconds intp NAV df =
     (let name = time_column NAV (columns df)
      in if name \<notin> set (columns df) then Inl KeyError
         else traverse (\<lambda>row. bind (cell_of name row) (\<lambda>c. bind (py_int intp c) (\<lambda>x.
                Inr (row, day_seconds_nav x)))) (rows df))"

text \<open>
  Line 276, \<^verbatim>\<open>pd.merge(df_r, df_n, how='inner', ...)\<close> on \<^verbatim>\<open>day_seconds\<close>: the pairs
  of a left and a right row with equal keys, in the order of the left table, labelled from 0.
\<close>

definition merge_pairs :: "rinex_row list \<Rightarrow> (nav_row \<times> int) list \<Rightarrow> (rinex_row \<times> nav_row \<times> int) list" where
  "merge_pairs df_r df_n =
     concat (map (\<lambda>r. map (\<lambda>(n, k). (r, n, k))
                         (filter (\<lambda>(n, k). k = day_seconds_rinex (decimal_hour r)) df_n)) df_r)"

definition merge :: "rinex_row list \<Rightarrow> (nav_row \<times> int) list \<Rightarrow> mrow list" where
  "merge df_r df_n =
     map (\<lambda>(i, (r, n, k)). \<lparr>label = i, rinex = r, nav = n, day_seconds = k\<rparr>)
       (enumerate 0 (merge_pairs df_r df_n))"

text \<open>
  Lines 212 to 271 on the navigation file (\<open>None\<close> stands for a file that
  \<^verbatim>\<open>pd.read_csv\<close> cannot read): the table is normalised and every row gets its key.
\<close>

definition nav_table ::
  "(string \<Rightarrow> real option) \<Rightarrow> (string \<Rightarrow> int option) \<Rightarrow> nav_frame option \<Rightarrow> string
   \<Rightarrow> error + (nav_frame \<times> (nav_row \<times> int) list)" where
  "nav_table flt intp ft NAV =
     (case ft of None \<Rightarrow> Inl IOError | Some df_n0 \<Rightarrow>
        bind (if contains ''TRINAV'' NAV then trinav_cleanup df_n0 else Inr df_n0) (\<lambda>df_n1.
        bind (gyro_to_float flt NAV df_n1) (\<lambda>df_n2.
        bind (latlon_to_dec flt df_n2) (\<lambda>df_n.
        bind (nav_day_seconds intp NAV df_n) (\<lambda>keyed. Inr (df_n, keyed))))))"

text \<open>
  Lines 210 to 287: both files are read, both tables get their key and are merged. With
  no matching row the script shows a message box and goes on (\<^verbatim>\<open>exit\<close> without a
  call does nothing); \<^verbatim>\<open>start_stop_df_m\<close> then raises. A table that runs backwards in
  time is reversed.
\<close>

definition merged_table ::
  "(string \<Rightarrow> real option) \<Rightarrow> (string \<Rightarrow> int option) \<Rightarrow> rinex_row list option \<Rightarrow> nav_frame option
   \<Rightarrow> string \<Rightarrow> error + (nav_frame \<times> mrow list)" where
  "merged_table flt intp fr ft NAV =
     (case fr of None \<Rightarrow> Inl IOError | Some df_r \<Rightarrow>
        bind (nav_table flt intp ft NAV) (\<lambda>(df_n, keyed).
          let df_m = merge df_r keyed
          in bind (start_stop_df_m df_m) (\<lambda>(first, last, reverse).
               Inr (df_n, if reverse = 1 then rev df_m else df_m))))"

text \<open>Lines 293 to 299: the factors from degrees to metres, from the mean latitude.\<close>

definition mean :: "real list \<Rightarrow> real" where
  "mean xs = sum_list xs / real (length xs)"

definition scale_factors :: "real \<Rightarrow> real \<times> real" where
  "scale_factors lat_mean =
     (let f = 1 / 298.257223563;
          sq_ex = f * (2 + f) / (1 - f) ^ 2;
          v2 = 1 + ((sq_ex ^ 2) * cos (lat_mean / 180 * pi));
          c = 6378137 / (1 - f);
          lat_factor = c * pi / (v2 powr 1.5) / 180;
          lon_factor = lat_factor * cos (lat_mean * pi / 180)
      in (lat_factor, lon_factor))"

text \<open>
  A row of the returned table: the merged row, the two differences in metres and the
  time of day as \<^verbatim>\<open>HH:MM\<close>.
\<close>

record drow = mrow +
  lat_diff :: real
  lon_diff :: real
  Time :: string

text \<open>\<^verbatim>\<open>a - b\<close> of a float and a cell: TypeError on a string.\<close>

definition minus_cell :: "real \<Rightarrow> cell \<Rightarrow> error + real" where
  "minus_cell a c = (case c of Num b \<Rightarrow> Inr (a - b) | Str s \<Rightarrow> Inl TypeError)"

text \<open>
  Lines 302 to 318, column by column: the differences of the selected system, scaled to
  metres, and the time of day. \<^verbatim>\<open>df_m[name]\<close> raises KeyError without such a column.
\<close>

definition col_diff ::
  "string list \<Rightarrow> string \<Rightarrow> (rinex_row \<Rightarrow> real) \<Rightarrow> real \<Rightarrow> mrow list \<Rightarrow> error + real list" where
  "col_diff cols name col factor df_m =
     (if name \<notin> set cols then Inl KeyError
      else traverse (\<lambda>m. bind (cell_of name (nav m)) (\<lambda>c.
             bind (minus_cell (col (rinex m)) c) (\<lambda>x. Inr (x * factor)))) df_m)"

definition col_time ::
  "(string \<Rightarrow> real option) \<Rightarrow> string list \<Rightarrow> string \<Rightarrow> mrow list \<Rightarrow> error + string list" where
  "col_time flt cols name df_m =
     (if name \<notin> set cols then Inl KeyError
      else traverse (\<lambda>m. bind (cell_of name (nav m)) (\<lambda>c.
             bind (py_float flt c) (\<lambda>x.
             bind (gps2time x) (\<lambda>dat. Inr (strftime_HM dat))))) df_m)"

definition lat_mean :: "('a mrow_scheme) list \<Rightarrow> real" where
  "lat_mean df_m = mean (map (\<lambda>m. latitude_decimal_degree (rinex m)) df_m)"

definition diff_systems ::
  "(string \<Rightarrow> real option) \<Rightarrow> nav_frame \<Rightarrow> mrow list \<Rightarrow> string \<Rightarrow> string \<Rightarrow> error + drow list" where
  "diff_systems flt df_n df_m system NAV =
     (let (lat_factor, lon_factor) = scale_factors (lat_mean df_m);
          cols = columns df_n @ [''day_seconds''];
          name_column_lat = column_name cols system [''LAT'', ''lat'', ''Lat''];
          name_column_lon = column_name cols system [''LON'', ''lon'', ''Lon'']
      in bind (col_diff cols name_column_lat latitude_decimal_degree lat_factor df_m) (\<lambda>lats.
         bind (col_diff cols name_column_lon longitude_decimal_degree lon_factor df_m) (\<lambda>lons.
         bind (col_time flt cols (time_column NAV cols) df_m) (\<lambda>times.
           Inr (map (\<lambda>(m, dlat, dlon, t).
                       mrow.extend m \<lparr>lat_diff = dlat, lon_diff = dlon, Time = t\<rparr>)
                  (zip df_m (zip lats (zip lons times))))))))"

text \<open>
  The files on disk are a set of paths. \<^verbatim>\<open>read_file_csv\<close> writes the merged table to
  a fixed path, at line 290 and again at line 320.
\<close>

type_synonym files = "string set"

definition combined_csv :: string where
  "combined_csv = ''C:/tmp/combined_data.csv''"

definition read_file_csv ::
  "(string \<Rightarrow> real option) \<Rightarrow> (string \<Rightarrow> int option) \<Rightarrow> rinex_row list option \<Rightarrow> nav_frame option
   \<Rightarrow> string \<Rightarrow> string \<Rightarrow> files \<Rightarrow> (error + drow list) \<times> files" where
  "read_file_csv flt intp fr ft system NAV disk =
     (case merged_table flt intp fr ft NAV of
        Inl e \<Rightarrow> (Inl e, disk)
      | Inr (df_n, df_m) \<Rightarrow>
          (let disk1 = insert combined_csv disk
           in (diff_systems flt df_n df_m system NAV, disk1)))"

section \<open>Statistics\<close>

text \<open>
  \<^verbatim>\<open>Series.describe()\<close> of a numeric column: count, mean, sample standard deviation,
  minimum, the three quartiles (linear interpolation) and maximum, by name. \<open>None\<close> is
  NaN: the statistics of an empty column, and the standard deviation of a single value.
\<close>

type_synonym describe = "(string \<times> real option) list"

definition std :: "real list \<Rightarrow> real option" where
  "std xs =
     (if length xs < 2 then None
      else Some (sqrt (sum_list (map (\<lambda>x. (x - mean xs) ^ 2) xs) / (real (length xs) - 1))))"

definition quantile :: "real \<Rightarrow> real list \<Rightarrow> real option" where
  "quantile q xs =
     (if xs = [] then None
      else (let s = sort xs;
                pos = q * (real (length xs) - 1);
                lo = nat \<lfloor>pos\<rfloor>;
                hi = min (lo + 1) (length xs - 1)
            in Some (s ! lo + (pos - real lo) * (s ! hi - s ! lo))))"

definition describe :: "real list \<Rightarrow> describe" where
  "describe xs =
     [(''count'', Some (real (length xs))),
      (''mean'', if xs = [] then None else Some (mean xs)),
      (''std'', std xs),
      (''min'', if xs = [] then None else Some (fold min (tl xs) (hd xs))),
      (''25%'', quantile (1 / 4) xs),
      (''50%'', quantile (1 / 2) xs),
      (''75%'', quantile (3 / 4) xs),
      (''max'', if xs = [] then None else Some (fold max (tl xs) (hd xs)))]"


section \<open>Plots, report and cleanup\<close>




text \<open>
  The report is the sequence of the content calls made on the PDF object: pages, cells,
  the scope text and images. Layout calls (position, font, colour, line feed) and the
  sizes of the cells are left out. The text of a cell is a string or a number formatted
  with a fixed number of decimals (\<^verbatim>\<open>'{:.4f}'.format(x)\<close>). The calls are taken not
  to raise.
\<close>

datatype cell_text = Lit string | Fixed nat "real option"

datatype pdf_op = AddPage | Cell cell_text | MultiCell string | Image string

definition logo :: string where
  "logo = ''logo.png''"

definition names :: "(string \<times> string) list" where
  "names = [(''max'', ''Max''), (''min'', ''Min''), (''mean'', ''Mean''), (''std'', ''Std Dev''),
            (''count'', ''# of obs'')]"

text \<open>
  The rows of the statistics table, lines 490 to 497. A failing lookup raises inside the
  \<^verbatim>\<open>try\<close> of the page: the calls made so far stay in the report and the rest of the
  page is skipped.
\<close>

fun stats_rows :: "(string \<rightharpoonup> describe) \<Rightarrow> string \<Rightarrow> string list \<Rightarrow> pdf_op list" where
  "stats_rows statistics system [] = []"
| "stats_rows statistics system (stat # rest) =
     Cell (Lit '''') #
     (case map_of names stat of
        None \<Rightarrow> []
      | Some name \<Rightarrow>
          Cell (Lit name) #
          (if contains ''count'' stat
           then (case statistics (system @ ''_lat'') of
                   None \<Rightarrow> []
                 | Some lat \<Rightarrow>
                     (case map_of lat stat of
                        None \<Rightarrow> []
                      | Some x \<Rightarrow> Cell (Fixed 0 x) # stats_rows statistics system rest))
           else (case statistics (system @ ''_lat'') of
                   None \<Rightarrow> []
                 | Some lat \<Rightarrow>
                     (case map_of lat stat of
                        None \<Rightarrow> []
                      | Some x \<Rightarrow>
                          Cell (Fixed 4 x) #
                          (case statistics (system @ ''_lon'') of
                             None \<Rightarrow> []
                           | Some lon \<Rightarrow>
                               (case map_of lon stat of
                                  None \<Rightarrow> []
                                | Some y \<Rightarrow>
                                    Cell (Fixed 4 y) # stats_rows statistics system rest))))))"

text \<open>The page of one system, lines 460 to 499.\<close>

definition system_page ::
  "(string \<rightharpoonup> describe) \<Rightarrow> (string \<rightharpoonup> datetime \<times> datetime \<times> int) \<Rightarrow> string list
   \<Rightarrow> nat \<Rightarrow> string \<Rightarrow> pdf_op list" where
  "system_page statistics start_stop_times descriptions i system =
     (case start_stop_times system of
        None \<Rightarrow> []
      | Some (start, stop, reverse) \<Rightarrow>
          (let start_logging = strftime_report start;
               stop_logging = strftime_report stop
           in [AddPage, Cell (Lit ''''), Image logo, Cell (Lit ''DGNSS Verification - RINEX'')] @
              (if length descriptions \<le> i then []
               else [Cell (Lit (''                 System  : '' @ system @ '' - '' @ descriptions ! i)),
                     Cell (Lit (''                 Start logging  : '' @ start_logging)),
                     Cell (Lit (''                 Stop logging  : '' @ stop_logging)),
                     Image (system @ ''.png''),
                     Cell (Lit ''Statistics''), Cell (Lit '' ''), Cell (Lit ''''),
                     Cell (Lit ''Stat''), Cell (Lit ''Lat diff [m]''), Cell (Lit ''Lon diff [m]'')]
                    @ stats_rows statistics system [''max'', ''min'', ''mean'', ''std'', ''count''])))"



section \<open>Processing the systems\<close>

text \<open>
  The state of the loop of \<^verbatim>\<open>Window.process\<close>: the two dictionaries. The inputs that
  the form supplies are fixed during a run.
\<close>

record inputs =
  in_flt :: "string \<Rightarrow> real option"
  in_intp :: "string \<Rightarrow> int option"
  in_files :: "rinex_row list option list"
  in_file_navigation :: "nav_frame option"
  in_nav :: string


text \<open>\<^verbatim>\<open>files[i]\<close>, inside the \<^verbatim>\<open>try\<close>: a missing entry raises like an unreadable file.\<close>

definition file_at :: "rinex_row list option list \<Rightarrow> nat \<Rightarrow> rinex_row list option" where
  "file_at fs i = (if i < length fs then fs ! i else None)"

definition read_system :: "inputs \<Rightarrow> nat \<Rightarrow> string \<Rightarrow> files \<Rightarrow> (error + drow list) \<times> files" where
  "read_system inp i system disk =
     read_file_csv (in_flt inp) (in_intp inp) (file_at (in_files inp) i) (in_file_navigation inp)
       system (in_nav inp) disk"




text \<open>Whether \<^verbatim>\<open>read_file_csv\<close> returns a table for the system at position \<open>i\<close>.\<close>

definition succeeds :: "inputs \<Rightarrow> nat \<Rightarrow> string \<Rightarrow> bool" where
  "succeeds inp i system = (case fst (read_system inp i system {}) of Inl e \<Rightarrow> False | Inr df \<Rightarrow> True)"

section \<open>A small run\<close>

text \<open>
  Concrete inputs on which the definitions are evaluated: a parser of digit strings for
  \<^verbatim>\<open>float\<close>, a RINEX table with one epoch at 01:30:00 of day 45 of 2023, and a TRINAV
  table with that epoch and the next second.
\<close>

definition digits_float :: "string \<Rightarrow> real option" where
  "digits_float s = (if s \<noteq> [] \<and> list_all is_digit s then Some (real (parse_nat s)) else None)"

definition no_int :: "string \<Rightarrow> int option" where
  "no_int s = None"

definition ex_rinex :: "rinex_row list" where
  "ex_rinex =
     [\<lparr>year = 2023, day_of_year = 45, decimal_hour = 3 / 2,
       latitude_decimal_degree = 10501 / 1000, longitude_decimal_degree = - (81 / 4)\<rparr>]"

definition ex_nav :: nav_frame where
  "ex_nav =
     \<lparr>columns = [''Time'', ''FU1G4_XX Lat'', ''FU1G4_XX Lon'', ''Gyro1,''],
      rows = [[(''Time'', Num 1360805400), (''FU1G4_XX Lat'', Str ''10 30 N''),
               (''FU1G4_XX Lon'', Str ''20:15:30W''), (''Gyro1,'', Str ''123,'')],
              [(''Time'', Num 1360805401), (''FU1G4_XX Lat'', Str ''10 30 N''),
               (''FU1G4_XX Lon'', Str ''20:15:30W''), (''Gyro1,'', Str ''124,'')]]\<rparr>"

definition ex_nav_row :: nav_row where
  "ex_nav_row =
     [(''Time'', Num 1360805400), (''FU1G4_XX Lat'', Num (21 / 2)),
      (''FU1G4_XX Lon'', Num (- (2431 / 120))), (''Gyro1'', Num 123)]"

definition ex_nav_row2 :: nav_row where
  "ex_nav_row2 =
     [(''Time'', Num 1360805401), (''FU1G4_XX Lat'', Num (21 / 2)),
      (''FU1G4_XX Lon'', Num (- (2431 / 120))), (''Gyro1'', Num 124)]"

definition ex_nav_dec :: nav_frame where
  "ex_nav_dec =
     \<lparr>columns = [''Time'', ''FU1G4_XX Lat'', ''FU1G4_XX Lon'', ''Gyro1''],
      rows = [ex_nav_row, ex_nav_row2]\<rparr>"

definition ex_mrow :: mrow where
  "ex_mrow = \<lparr>label = 0, rinex = hd ex_rinex, nav = ex_nav_row, day_seconds = 5400\<rparr>"

definition ex_stamp :: datetime where
  "ex_stamp =
     \<lparr>dt_ordinal = 738565, dt_hour = 1, dt_minute = 30, dt_second = 0, dt_microsecond = 0\<rparr>"

definition ex_drow :: drow where
  "ex_drow =
     mrow.extend ex_mrow
       \<lparr>lat_diff = (10501 / 1000 - 21 / 2) * fst (scale_factors (10501 / 1000)),
        lon_diff = (- (81 / 4) - (- (2431 / 120))) * snd (scale_factors (10501 / 1000)),
        Time = ''01:30''\<rparr>"






section \<open>The scale factors in the words of the specification\<close>

text \<open>
  The factors as the specification states them, for comparison with \<open>scale_factors\<close>:
  the flattening of WGS-84, the latitude factor \<open>c * pi / v2 ^ 1.5 / 180\<close> with
  \<open>c = 6378137 / (1 - f)\<close>, and the longitude factor, which is the latitude factor
  times the cosine of the mean latitude in radians.
\<close>

definition wgs84_f :: real where
  "wgs84_f = 1 / 298.257223563"

definition spec_v2 :: "real \<Rightarrow> real \<Rightarrow> real" where
  "spec_v2 f m = 1 + (f * (2 + f) / (1 - f) ^ 2) ^ 2 * cos (m / 180 * pi)"

definition spec_lat_factor :: "real \<Rightarrow> real \<Rightarrow> real" where
  "spec_lat_factor f m = (6378137 / (1 - f)) * pi / (spec_v2 f m powr 1.5) / 180"

definition spec_lon_factor :: "real \<Rightarrow> real \<Rightarrow> real" where
  "spec_lon_factor f m = spec_lat_factor f m * cos (m * pi / 180)"

section \<open>Properties\<close>











subsection \<open>The small run, evaluated\<close>

lemma ex_hms_stamp:
  "hms_stamp (str_int 2023) (zfill 3 (str_int 45)) (3 / 2) = ''2023_045_01_30_00''"
  by (simp add: hms_stamp_def dec_hour_to_hms_def py_trunc_def frac_def str_int_def
      str_nat.simps zfill_def digit_char_def Let_def)

lemma ex_strptime: "strptime_Yj_HMS ''2023_045_01_30_00'' = Inr ex_stamp"
  by (simp add: strptime_Yj_HMS_def digits_upto_def is_digit_def parse_nat_def digit_val_def
      ymd2ord_def days_before_year_def days_before_month_def DAYS_BEFORE_MONTH_def is_leap_def
      MAXORDINAL_def Let_def ex_stamp_def)

lemma ex_start_stop_m: "start_stop_df_m [ex_mrow] = Inr (ex_stamp, ex_stamp, 0)"
  by (simp add: start_stop_df_m_def ex_mrow_def ex_rinex_def loc_def bind_def ex_hms_stamp
      ex_strptime Let_def)

lemma ex_start_stop_d: "start_stop_df_m [ex_drow] = Inr (ex_stamp, ex_stamp, 0)"
  by (simp add: start_stop_df_m_def ex_drow_def ex_mrow_def ex_rinex_def loc_def bind_def
      ex_hms_stamp ex_strptime Let_def mrow.extend_def)

lemma ex_nav_table_cs:
  "nav_table digits_float no_int (Some ex_nav) ''TRINAV'' =
     Inr (ex_nav_dec, [(ex_nav_row, 5400), (ex_nav_row2, 5401)])"
  by code_simp

lemma ex_merged:
  "merged_table digits_float no_int (Some ex_rinex) (Some ex_nav) ''TRINAV'' =
     Inr (ex_nav_dec, [ex_mrow])"
  by code_simp

lemma ex_lat_mean: "lat_mean [ex_mrow] = 10501 / 1000"
  by code_simp

lemma ex_cols:
  "col_diff (columns ex_nav_dec @ [''day_seconds''])
     (column_name (columns ex_nav_dec @ [''day_seconds'']) ''FU1G4_XX'' [''LAT'', ''lat'', ''Lat''])
     latitude_decimal_degree a [ex_mrow] = Inr [(10501 / 1000 - 21 / 2) * a]"
  "col_diff (columns ex_nav_dec @ [''day_seconds''])
     (column_name (columns ex_nav_dec @ [''day_seconds'']) ''FU1G4_XX'' [''LON'', ''lon'', ''Lon''])
     longitude_decimal_degree b [ex_mrow] = Inr [(- (81 / 4) - (- (2431 / 120))) * b]"
  "col_time digits_float (columns ex_nav_dec @ [''day_seconds''])
     (time_column ''TRINAV'' (columns ex_nav_dec @ [''day_seconds''])) [ex_mrow] = Inr [''01:30'']"
    apply (simp add: col_diff_def column_name_def ex_nav_dec_def ex_mrow_def ex_nav_row_def ex_rinex_def cell_of_def bind_def minus_cell_def)
   apply (simp add: col_diff_def column_name_def ex_nav_dec_def ex_mrow_def ex_nav_row_def ex_rinex_def cell_of_def bind_def minus_cell_def)
  apply code_simp
  done

lemma ex_diff:
  "diff_systems digits_float ex_nav_dec [ex_mrow] ''FU1G4_XX'' ''TRINAV'' = Inr [ex_drow]"
  unfolding diff_systems_def ex_lat_mean Let_def
  by (simp add: split_beta ex_cols bind_def ex_drow_def)

subsection \<open>Seconds of the logging period\<close>

lemma zfill_zero: "zfill 2 (str_int 0) = ''00''"
  by (simp add: zfill_def str_int_def str_nat.simps digit_char_def)

lemma dec_hour_to_hms_seconds: "snd (snd (dec_hour_to_hms x)) = ''00''"
  by (simp add: dec_hour_to_hms_def Let_def zfill_zero)

lemma split_on_nonempty: "split_on c xs \<noteq> []"
  by (induction xs) (auto split: list.splits)

lemma split_on_no_sep: "c \<notin> set ys \<Longrightarrow> split_on c ys = [ys]"
  by (induction ys) auto

lemma split_on_append: "split_on c (xs @ c # ys) = split_on c xs @ split_on c ys"
proof (induction xs)
  case Nil
  show ?case by simp
next
  case (Cons x xs)
  show ?case
  proof (cases "x = c")
    case True
    with Cons show ?thesis by simp
  next
    case False
    obtain w ws where s: "split_on c xs = w # ws"
      using split_on_nonempty [of c xs] by (cases "split_on c xs") auto
    with False Cons show ?thesis by simp
  qed
qed

lemma hms_stamp_split:
  "\<exists>p. split_on CHR ''_'' (hms_stamp y d t) = split_on CHR ''_'' p @ [''00'']"
proof -
  obtain h m s where hms: "dec_hour_to_hms t = (h, m, s)"
    by (cases "dec_hour_to_hms t") auto
  have s: "s = ''00''"
    using dec_hour_to_hms_seconds [of t] hms by simp
  have "hms_stamp y d t = (y @ ''_'' @ d @ ''_'' @ h @ ''_'' @ m) @ CHR ''_'' # ''00''"
    by (simp add: hms_stamp_def hms s)
  then show ?thesis
    using split_on_append [of "CHR ''_''" "y @ ''_'' @ d @ ''_'' @ h @ ''_'' @ m" "''00''"]
    by (auto simp: split_on_no_sep)
qed

lemma strptime_second:
  assumes "strptime_Yj_HMS s = Inr dt"
  shows "dt_second dt = int (parse_nat (last (split_on CHR ''_'' s)))"
  using assms unfolding strptime_Yj_HMS_def
  by (auto simp: Let_def split: list.splits if_splits)

lemma parse_nat_00: "parse_nat ''00'' = 0"
  by (simp add: parse_nat_def digit_val_def)

lemma strptime_hms_stamp_second:
  assumes "strptime_Yj_HMS (hms_stamp y d t) = Inr dt"
  shows "dt_second dt = 0"
proof -
  obtain p where "split_on CHR ''_'' (hms_stamp y d t) = split_on CHR ''_'' p @ [''00'']"
    using hms_stamp_split by blast
  then have "last (split_on CHR ''_'' (hms_stamp y d t)) = ''00''"
    by simp
  with strptime_second [OF assms] show ?thesis
    by (simp add: parse_nat_00)
qed

lemma start_stop_seconds:
  assumes "start_stop_df_m df = Inr (start, stop, reverse)"
  shows "dt_second start = 0 \<and> dt_second stop = 0"
  using assms unfolding start_stop_df_m_def bind_def
  by (auto simp: Let_def split: sum.splits if_splits dest: strptime_hms_stamp_second)

lemma strftime_report_seconds:
  assumes "dt_second dt = 0"
  shows "\<exists>p. strftime_report dt = p @ '':00''"
proof -
  obtain y m d where o: "ord2ymd (dt_ordinal dt) = (y, m, d)"
    by (cases "ord2ymd (dt_ordinal dt)") auto
  have "strftime_report dt =
      (zfill 2 (str_int d) @ ''-'' @ zfill 2 (str_int m) @ ''-'' @ zfill 4 (str_int y)
          @ '' at '' @ zfill 2 (str_int (dt_hour dt)) @ '':'' @ zfill 2 (str_int (dt_minute dt))) @ '':00''"
    by (simp add: strftime_report_def o assms zfill_zero)
  then show ?thesis by blast
qed

lemma system_page_stamps:
  assumes "start_stop_times system = Some (start, stop, reverse)" "i < length descriptions"
  shows "Cell (Lit (''                 Start logging  : '' @ strftime_report start))
           \<in> set (system_page statistics start_stop_times descriptions i system)
         \<and> Cell (Lit (''                 Stop logging  : '' @ strftime_report stop))
           \<in> set (system_page statistics start_stop_times descriptions i system)"
  using assms by (simp add: system_page_def Let_def)

text \<open>
  C10. The seconds component that \<^verbatim>\<open>dec_hour_to_hms\<close> returns is the string
  \<^verbatim>\<open>"00"\<close> for every decimal hour. So whenever \<^verbatim>\<open>start_stop_df_m\<close> returns, the
  start and the stop of the logging period have second 0, and the two timestamps that
  the page of the system shows end in \<^verbatim>\<open>:00\<close>.
\<close>

theorem seconds_always_zero:
  "snd (snd (dec_hour_to_hms dec_hour)) = ''00'' \<and>
   (start_stop_df_m df = Inr (start, stop, reverse) \<longrightarrow>
      dt_second start = 0 \<and> dt_second stop = 0 \<and>
      (\<exists>p q. strftime_report start = p @ '':00'' \<and> strftime_report stop = q @ '':00'' \<and>
         (start_stop_times system = Some (start, stop, reverse) \<and> i < length descriptions \<longrightarrow>
            Cell (Lit (''                 Start logging  : '' @ p @ '':00''))
              \<in> set (system_page statistics start_stop_times descriptions i system) \<and>
            Cell (Lit (''                 Stop logging  : '' @ q @ '':00''))
              \<in> set (system_page statistics start_stop_times descriptions i system))))"
proof (intro conjI impI)
  show "snd (snd (dec_hour_to_hms dec_hour)) = ''00''"
    by (rule dec_hour_to_hms_seconds)
next
  assume a: "start_stop_df_m df = Inr (start, stop, reverse)"
  from start_stop_seconds [OF a] show "dt_second start = 0" "dt_second stop = 0"
    by simp_all
  then obtain p q where pq: "strftime_report start = p @ '':00''" "strftime_report stop = q @ '':00''"
    using strftime_report_seconds by blast
  show "\<exists>p q. strftime_report start = p @ '':00'' \<and> strftime_report stop = q @ '':00'' \<and>
         (start_stop_times system = Some (start, stop, reverse) \<and> i < length descriptions \<longrightarrow>
            Cell (Lit (''                 Start logging  : '' @ p @ '':00''))
              \<in> set (system_page statistics start_stop_times descriptions i system) \<and>
            Cell (Lit (''                 Stop logging  : '' @ q @ '':00''))
              \<in> set (system_page statistics start_stop_times descriptions i system))"
    using pq system_page_stamps [of start_stop_times system start stop reverse i descriptions statistics]
    by (intro exI [of _ p] exI [of _ q]) auto
qed

lemma ex_report_stamp: "strftime_report ex_stamp = ''14-02-2023 at 01:30:00''"
  by code_simp

theorem seconds_always_zero_witness:
  "start_stop_df_m [ex_drow] = Inr (ex_stamp, ex_stamp, 0) \<and>
   snd (snd (dec_hour_to_hms (3 / 2))) = ''00'' \<and>
   dt_second ex_stamp = 0 \<and>
   strftime_report ex_stamp = ''14-02-2023 at 01:30'' @ '':00'' \<and>
   Cell (Lit (''                 Start logging  : 14-02-2023 at 01:30:00''))
     \<in> set (system_page Map.empty [''FU1G4_XX'' \<mapsto> (ex_stamp, ex_stamp, 0)] [''FUGRO G4''] 0 ''FU1G4_XX'')"
  using seconds_always_zero [of "3 / 2" "[ex_drow]" ex_stamp ex_stamp 0
      "[''FU1G4_XX'' \<mapsto> (ex_stamp, ex_stamp, 0)]" "''FU1G4_XX''" 0 "[''FUGRO G4'']" Map.empty]
    ex_start_stop_d ex_report_stamp
  by auto

subsection \<open>Degrees, minutes, seconds\<close>

lemma contains_single: "contains [c] s \<longleftrightarrow> c \<in> set s"
  by (induction s) auto

lemma set_replace1:
  "set (replace1 c r s) = (set s - {c}) \<union> (if c \<in> set s then set r else {})"
  by (induction s) (auto simp: replace1_def)

lemma dms_spaced_S: "CHR ''S'' \<in> set (dms_spaced s) \<longleftrightarrow> CHR ''S'' \<in> set s"
  by (simp add: dms_spaced_def set_replace1)

lemma dms_spaced_W: "CHR ''W'' \<in> set (dms_spaced s) \<longleftrightarrow> CHR ''W'' \<in> set s"
  by (simp add: dms_spaced_def set_replace1)

text \<open>
  C5. Let the string, after the separators are spaced out, split into at least three
  fs, of which the first two parse as the degrees and the minutes; the seconds are the
  third field when there are four fs, and 0 otherwise. Then \<^verbatim>\<open>dms_to_dec\<close> returns
  degrees + minutes / 60 + seconds / 3600, negated exactly when the string contains the
  letter S or the letter W.
\<close>

theorem dms_to_dec_value:
  assumes "split_ws (dms_spaced s) = fs" and "3 \<le> length fs"
    and "flt (fs ! 0) = Some deg" and "flt (fs ! 1) = Some mn"
    and "(if length fs = 4 then flt (fs ! 2) else Some 0) = Some sec"
  shows "dms_to_dec flt (Str s) =
         Inr (Num (if CHR ''S'' \<in> set s \<or> CHR ''W'' \<in> set s
                   then - (deg + mn / 60 + sec / 3600)
                   else deg + mn / 60 + sec / 3600))"
proof -
  have sec: "(if length fs = 4 then parse_with flt (fs ! 2) else Inr 0) = Inr sec"
    using assms(5) by (auto simp: parse_with_def split: if_splits)
  have p0: "parse_with flt (fs ! 0) = Inr deg" and p1: "parse_with flt (fs ! 1) = Inr mn"
    using assms(3,4) by (simp_all add: parse_with_def)
  have n: "\<not> length fs < 3"
    using assms(2) by simp
  have "dms_to_dec flt (Str s) =
        (if contains ''S'' (dms_spaced s) then Inr (Num ((deg + (mn / 60) + (sec / 3600)) * (- 1)))
         else if contains ''W'' (dms_spaced s) then Inr (Num ((deg + (mn / 60) + (sec / 3600)) * (- 1)))
         else Inr (Num (deg + (mn / 60) + (sec / 3600))))"
    unfolding dms_to_dec_def cell.case Let_def assms(1) p0 p1 sec bind_def
    using n by simp
  then show ?thesis
    by (simp add: contains_single dms_spaced_S dms_spaced_W)
qed

lemma ex_dms_fields: "split_ws (dms_spaced ''20:15:30W'') = [''20'', ''15'', ''30'', ''W'']"
  by code_simp

lemma ex_digits_float:
  "digits_float ''20'' = Some 20" "digits_float ''15'' = Some 15" "digits_float ''30'' = Some 30"
  by code_simp+

theorem dms_to_dec_value_witness:
  "split_ws (dms_spaced ''20:15:30W'') = [''20'', ''15'', ''30'', ''W''] \<and>
   dms_to_dec digits_float (Str ''20:15:30W'') = Inr (Num (- (20 + 15 / 60 + 30 / 3600)))"
  using dms_to_dec_value [of "''20:15:30W''" "[''20'', ''15'', ''30'', ''W'']" digits_float 20 15 30]
    ex_dms_fields ex_digits_float
  by simp

subsection \<open>Rounding\<close>



subsection \<open>Traversals\<close>

lemma traverse_Cons_Inr:
  "traverse f (x # xs) = Inr ys \<longleftrightarrow> (\<exists>y zs. f x = Inr y \<and> traverse f xs = Inr zs \<and> ys = y # zs)"
  by (cases "f x"; cases "traverse f xs") auto

lemma traverse_Inr_iff:
  "traverse f xs = Inr ys \<longleftrightarrow> list_all2 (\<lambda>x y. f x = Inr y) xs ys"
proof (induction xs arbitrary: ys)
  case Nil
  show ?case by auto
next
  case (Cons x xs)
  show ?case
    unfolding traverse_Cons_Inr list_all2_Cons1 Cons by blast
qed


lemma traverse_Inr_length: "traverse f xs = Inr ys \<Longrightarrow> length ys = length xs"
  by (simp add: traverse_Inr_iff list_all2_lengthD)

lemma traverse_Inr_nth:
  "traverse f xs = Inr ys \<Longrightarrow> i < length xs \<Longrightarrow> f (xs ! i) = Inr (ys ! i)"
  by (simp add: traverse_Inr_iff list_all2_conv_all_nth)

lemma bind_Inr_iff: "bind m f = Inr y \<longleftrightarrow> (\<exists>x. m = Inr x \<and> f x = Inr y)"
  by (cases m) (simp_all add: bind_def)


subsection \<open>The join key\<close>




lemma ex_time_cell:
  "cell_of (time_column ''TRINAV'' (columns ex_nav_dec)) ex_nav_row = Inr (Num 1360805400)"
  by code_simp


lemma ex_day_seconds_rinex: "day_seconds_rinex (3 / 2) = 5400"
  by (simp add: day_seconds_rinex_def py_round1_def round_half_even_def py_trunc_def Let_def)





subsection \<open>Scale factors\<close>

lemma wgs84_sq_ex:
  "0 \<le> (wgs84_f * (2 + wgs84_f) / (1 - wgs84_f) ^ 2) ^ 2"
  "(wgs84_f * (2 + wgs84_f) / (1 - wgs84_f) ^ 2) ^ 2 < 1"
  by (simp_all add: wgs84_f_def power2_eq_square)

lemma spec_v2_pos: "0 < spec_v2 wgs84_f m"
proof -
  define e where "e = (wgs84_f * (2 + wgs84_f) / (1 - wgs84_f) ^ 2) ^ 2"
  have e: "0 \<le> e" "e < 1"
    using wgs84_sq_ex by (simp_all add: e_def)
  have "- 1 \<le> cos (m / 180 * pi)"
    by simp
  then have "e * (- 1) \<le> e * cos (m / 180 * pi)"
    using e(1) by (rule mult_left_mono)
  then have "0 < 1 + e * cos (m / 180 * pi)"
    using e(2) by linarith
  then show ?thesis
    by (simp add: spec_v2_def e_def)
qed

text \<open>
  C3. The two factors are computed from the flattening of WGS-84 and the mean of the
  RINEX latitudes of the merged table, and from nothing else: the latitude factor is
  \<open>c * pi / v2 ^ 1.5 / 180\<close> with \<open>c = 6378137 / (1 - f)\<close>, where \<open>v2\<close> is positive,
  and the longitude factor is the latitude factor times the cosine of the mean latitude
  in radians.
\<close>

theorem scale_factors_formula:
  "scale_factors (lat_mean df_m) =
     (spec_lat_factor wgs84_f (lat_mean df_m), spec_lon_factor wgs84_f (lat_mean df_m)) \<and>
   lat_mean df_m
     = sum_list (map (\<lambda>m. latitude_decimal_degree (rinex m)) df_m) / real (length df_m) \<and>
   0 < spec_v2 wgs84_f (lat_mean df_m)"
proof (intro conjI)
  show "scale_factors (lat_mean df_m) =
     (spec_lat_factor wgs84_f (lat_mean df_m), spec_lon_factor wgs84_f (lat_mean df_m))"
    unfolding scale_factors_def Let_def spec_lat_factor_def spec_lon_factor_def spec_v2_def
      wgs84_f_def ..
  show "lat_mean df_m
     = sum_list (map (\<lambda>m. latitude_decimal_degree (rinex m)) df_m) / real (length df_m)"
    by (simp add: lat_mean_def mean_def)
  show "0 < spec_v2 wgs84_f (lat_mean df_m)"
    by (rule spec_v2_pos)
qed

subsection \<open>The merge\<close>

lemma merge_triples:
  "map (\<lambda>m. (rinex m, nav m, day_seconds m)) (merge df_r keyed) = merge_pairs df_r keyed"
proof -
  have "map (\<lambda>m. (rinex m, nav m, day_seconds m))
          (map (\<lambda>(i, (r, n, k)). \<lparr>label = i, rinex = r, nav = n, day_seconds = k\<rparr>)
             (enumerate j ps)) = ps" for j and ps :: "(rinex_row \<times> nav_row \<times> int) list"
    by (induction ps arbitrary: j) auto
  then show ?thesis
    unfolding merge_def .
qed


lemma set_merge_pairs:
  "(r, n, k) \<in> set (merge_pairs df_r keyed) \<longleftrightarrow>
     r \<in> set df_r \<and> (n, k) \<in> set keyed \<and> day_seconds_rinex (decimal_hour r) = k"
  unfolding merge_pairs_def by auto

lemma length_merge_pairs:
  "length (merge_pairs df_r keyed) =
     (\<Sum>r\<leftarrow>df_r. length (filter (\<lambda>(n, k). k = day_seconds_rinex (decimal_hour r)) keyed))"
  unfolding merge_pairs_def by (simp add: length_concat comp_def)

lemma triples_cong:
  assumes "map (\<lambda>m. (rinex m, nav m, day_seconds m)) xs = ps"
  shows "(\<exists>m\<in>set xs. rinex m = r \<and> nav m = n \<and> day_seconds m = k) \<longleftrightarrow> (r, n, k) \<in> set ps"
proof -
  have "set ps = (\<lambda>m. (rinex m, nav m, day_seconds m)) ` set xs"
    using assms by auto
  then show ?thesis by auto
qed

subsection \<open>What a successful read returns\<close>

lemma merged_table_Inr:
  assumes "merged_table flt intp fr ft NAV = Inr (df_n, df_m)"
  shows "\<exists>df_r keyed sst. fr = Some df_r \<and> nav_table flt intp ft NAV = Inr (df_n, keyed)
           \<and> start_stop_df_m (merge df_r keyed) = Inr sst
           \<and> (df_m = merge df_r keyed \<or> df_m = rev (merge df_r keyed))"
proof -
  obtain df_r where fr: "fr = Some df_r"
    using assms by (cases fr) (auto simp: merged_table_def)
  obtain p where p: "nav_table flt intp ft NAV = Inr p"
    and r: "(case p of (df_n, keyed) \<Rightarrow>
          let df_m = merge df_r keyed
          in bind (start_stop_df_m df_m) (\<lambda>(first, last, reverse).
               Inr (df_n, if reverse = 1 then rev df_m else df_m))) = Inr (df_n, df_m)"
    using assms unfolding merged_table_def fr option.case bind_Inr_iff by blast
  obtain d keyed where pk: "p = (d, keyed)"
    by (cases p) auto
  obtain sst where sst: "start_stop_df_m (merge df_r keyed) = Inr sst"
    and e: "(case sst of (fi, la, reverse) \<Rightarrow>
               Inr (d, if reverse = 1 then rev (merge df_r keyed) else merge df_r keyed))
            = (Inr (df_n, df_m) :: error + nav_frame \<times> mrow list)"
    using r unfolding pk prod.case Let_def bind_Inr_iff by blast
  obtain a b c where abc: "sst = (a, b, c)"
    by (cases sst) auto
  have "d = df_n" "df_m = merge df_r keyed \<or> df_m = rev (merge df_r keyed)"
    using e unfolding abc by (auto split: if_splits)
  with fr p pk sst show ?thesis by blast
qed

lemma read_file_csv_Inr:
  assumes "read_file_csv flt intp fr ft system NAV disk = (Inr df, disk')"
  shows "\<exists>df_n df_m. merged_table flt intp fr ft NAV = Inr (df_n, df_m)
           \<and> diff_systems flt df_n df_m system NAV = Inr df \<and> disk' = insert combined_csv disk"
  using assms unfolding read_file_csv_def
  by (auto simp: Let_def split: sum.splits prod.splits)

lemma diff_systems_Inr:
  assumes "diff_systems flt df_n df_m system NAV = Inr df"
  shows "\<exists>lats lons times.
           col_diff (columns df_n @ [''day_seconds''])
             (column_name (columns df_n @ [''day_seconds'']) system [''LAT'', ''lat'', ''Lat''])
             latitude_decimal_degree (fst (scale_factors (lat_mean df_m))) df_m = Inr lats
         \<and> col_diff (columns df_n @ [''day_seconds''])
             (column_name (columns df_n @ [''day_seconds'']) system [''LON'', ''lon'', ''Lon''])
             longitude_decimal_degree (snd (scale_factors (lat_mean df_m))) df_m = Inr lons
         \<and> col_time flt (columns df_n @ [''day_seconds''])
             (time_column NAV (columns df_n @ [''day_seconds''])) df_m = Inr times
         \<and> df = map (\<lambda>(m, dlat, dlon, t).
                       mrow.extend m \<lparr>lat_diff = dlat, lon_diff = dlon, Time = t\<rparr>)
                  (zip df_m (zip lats (zip lons times)))"
  using assms unfolding diff_systems_def Let_def case_prod_unfold bind_Inr_iff
  by blast

lemma col_diff_Inr:
  assumes "col_diff cols name col factor df_m = Inr xs"
  shows "length xs = length df_m \<and>
         (\<forall>i<length df_m. \<exists>b. cell_of name (nav (df_m ! i)) = Inr (Num b)
              \<and> xs ! i = (col (rinex (df_m ! i)) - b) * factor)"
proof -
  let ?f = "\<lambda>m. bind (cell_of name (nav m)) (\<lambda>c.
             bind (minus_cell (col (rinex m)) c) (\<lambda>x. Inr (x * factor)))"
  have t: "traverse ?f df_m = Inr xs"
    using assms unfolding col_diff_def by (simp split: if_splits)
  have "\<exists>b. cell_of name (nav (df_m ! i)) = Inr (Num b)
              \<and> xs ! i = (col (rinex (df_m ! i)) - b) * factor" if "i < length df_m" for i
  proof -
    have "?f (df_m ! i) = Inr (xs ! i)"
      using traverse_Inr_nth [OF t that] .
    then obtain c x where c: "cell_of name (nav (df_m ! i)) = Inr c"
      and x: "minus_cell (col (rinex (df_m ! i))) c = Inr x" and v: "x * factor = xs ! i"
      unfolding bind_Inr_iff by auto
    from x obtain b where "c = Num b" "x = col (rinex (df_m ! i)) - b"
      by (cases c) (auto simp: minus_cell_def)
    with c v show ?thesis by auto
  qed
  with traverse_Inr_length [OF t] show ?thesis by blast
qed

lemma col_time_length:
  assumes "col_time flt cols name df_m = Inr ts"
  shows "length ts = length df_m"
  using assms unfolding col_time_def
  by (auto split: if_splits dest: traverse_Inr_length)

lemma diff_systems_rows:
  assumes "diff_systems flt df_n df_m system NAV = Inr df"
  shows "length df = length df_m \<and>
         (\<forall>i<length df_m.
            label (df ! i) = label (df_m ! i) \<and> rinex (df ! i) = rinex (df_m ! i)
            \<and> nav (df ! i) = nav (df_m ! i) \<and> day_seconds (df ! i) = day_seconds (df_m ! i)
            \<and> (\<exists>nlat nlon.
                 cell_of (column_name (columns df_n @ [''day_seconds'']) system [''LAT'', ''lat'', ''Lat''])
                   (nav (df_m ! i)) = Inr (Num nlat)
               \<and> cell_of (column_name (columns df_n @ [''day_seconds'']) system [''LON'', ''lon'', ''Lon''])
                   (nav (df_m ! i)) = Inr (Num nlon)
               \<and> lat_diff (df ! i)
                   = (latitude_decimal_degree (rinex (df_m ! i)) - nlat) * fst (scale_factors (lat_mean df_m))
               \<and> lon_diff (df ! i)
                   = (longitude_decimal_degree (rinex (df_m ! i)) - nlon) * snd (scale_factors (lat_mean df_m))))"
proof -
  from diff_systems_Inr [OF assms] obtain lats lons times where
    la: "col_diff (columns df_n @ [''day_seconds''])
             (column_name (columns df_n @ [''day_seconds'']) system [''LAT'', ''lat'', ''Lat''])
             latitude_decimal_degree (fst (scale_factors (lat_mean df_m))) df_m = Inr lats"
    and lo: "col_diff (columns df_n @ [''day_seconds''])
             (column_name (columns df_n @ [''day_seconds'']) system [''LON'', ''lon'', ''Lon''])
             longitude_decimal_degree (snd (scale_factors (lat_mean df_m))) df_m = Inr lons"
    and ti: "col_time flt (columns df_n @ [''day_seconds''])
             (time_column NAV (columns df_n @ [''day_seconds''])) df_m = Inr times"
    and df: "df = map (\<lambda>(m, dlat, dlon, t).
                       mrow.extend m \<lparr>lat_diff = dlat, lon_diff = dlon, Time = t\<rparr>)
                  (zip df_m (zip lats (zip lons times)))"
    by blast
  note A = col_diff_Inr [OF la] and B = col_diff_Inr [OF lo] and C = col_time_length [OF ti]
  have len: "length df = length df_m"
    using A B C by (simp add: df)
  have nth: "df ! i = mrow.extend (df_m ! i) \<lparr>lat_diff = lats ! i, lon_diff = lons ! i, Time = times ! i\<rparr>"
    if "i < length df_m" for i
    using that A B C by (simp add: df)
  show ?thesis
  proof (intro conjI allI impI)
    show "length df = length df_m" by (rule len)
  next
    fix i assume i: "i < length df_m"
    show "label (df ! i) = label (df_m ! i)" "rinex (df ! i) = rinex (df_m ! i)"
      "nav (df ! i) = nav (df_m ! i)" "day_seconds (df ! i) = day_seconds (df_m ! i)"
      by (simp_all add: nth [OF i] mrow.extend_def)
    from A i obtain nlat where 1: "cell_of (column_name (columns df_n @ [''day_seconds'']) system [''LAT'', ''lat'', ''Lat''])
                   (nav (df_m ! i)) = Inr (Num nlat)"
      "lats ! i = (latitude_decimal_degree (rinex (df_m ! i)) - nlat) * fst (scale_factors (lat_mean df_m))"
      by blast
    from B i obtain nlon where 2: "cell_of (column_name (columns df_n @ [''day_seconds'']) system [''LON'', ''lon'', ''Lon''])
                   (nav (df_m ! i)) = Inr (Num nlon)"
      "lons ! i = (longitude_decimal_degree (rinex (df_m ! i)) - nlon) * snd (scale_factors (lat_mean df_m))"
      by blast
    have "lat_diff (df ! i) = lats ! i" "lon_diff (df ! i) = lons ! i"
      by (simp_all add: nth [OF i] mrow.extend_def)
    with 1 2 show "\<exists>nlat nlon.
                 cell_of (column_name (columns df_n @ [''day_seconds'']) system [''LAT'', ''lat'', ''Lat''])
                   (nav (df_m ! i)) = Inr (Num nlat)
               \<and> cell_of (column_name (columns df_n @ [''day_seconds'']) system [''LON'', ''lon'', ''Lon''])
                   (nav (df_m ! i)) = Inr (Num nlon)
               \<and> lat_diff (df ! i)
                   = (latitude_decimal_degree (rinex (df_m ! i)) - nlat) * fst (scale_factors (lat_mean df_m))
               \<and> lon_diff (df ! i)
                   = (longitude_decimal_degree (rinex (df_m ! i)) - nlon) * snd (scale_factors (lat_mean df_m))"
      by auto
  qed
qed

lemma diff_systems_triples:
  assumes "diff_systems flt df_n df_m system NAV = Inr df"
  shows "map (\<lambda>m. (rinex m, nav m, day_seconds m)) df = map (\<lambda>m. (rinex m, nav m, day_seconds m)) df_m"
  using diff_systems_rows [OF assms] by (intro nth_equalityI) simp_all

lemma read_file_csv_triples:
  assumes "read_file_csv flt intp (Some df_r) ft system NAV disk = (Inr df, disk')"
  shows "\<exists>df_n keyed. nav_table flt intp ft NAV = Inr (df_n, keyed) \<and>
           (map (\<lambda>m. (rinex m, nav m, day_seconds m)) df = merge_pairs df_r keyed
            \<or> map (\<lambda>m. (rinex m, nav m, day_seconds m)) df = rev (merge_pairs df_r keyed))"
proof -
  from read_file_csv_Inr [OF assms] obtain df_n df_m where
    m: "merged_table flt intp (Some df_r) ft NAV = Inr (df_n, df_m)"
    and d: "diff_systems flt df_n df_m system NAV = Inr df"
    by blast
  from merged_table_Inr [OF m] obtain keyed where
    k: "nav_table flt intp ft NAV = Inr (df_n, keyed)"
    and r: "df_m = merge df_r keyed \<or> df_m = rev (merge df_r keyed)"
    by auto
  have "map (\<lambda>m. (rinex m, nav m, day_seconds m)) df_m = merge_pairs df_r keyed
        \<or> map (\<lambda>m. (rinex m, nav m, day_seconds m)) df_m = rev (merge_pairs df_r keyed)"
  proof (rule disjE [OF r])
    assume "df_m = merge df_r keyed"
    then show ?thesis by (simp add: merge_triples)
  next
    assume "df_m = rev (merge df_r keyed)"
    then have "map (\<lambda>m. (rinex m, nav m, day_seconds m)) df_m
        = rev (map (\<lambda>m. (rinex m, nav m, day_seconds m)) (merge df_r keyed))"
      by (simp only: rev_map)
    then show ?thesis unfolding merge_triples by (rule disjI2)
  qed
  with k show ?thesis
    unfolding diff_systems_triples [OF d] by blast
qed

text \<open>
  C1. When \<^verbatim>\<open>read_file_csv\<close> returns a table, that table is the inner join of the
  RINEX table and the normalised navigation table on \<^verbatim>\<open>day_seconds\<close>: a row made of
  the RINEX row \<open>r\<close> and the navigation row \<open>n\<close> with key \<open>k\<close> exists exactly when
  \<open>r\<close> is in the RINEX table, \<open>n\<close> is in the navigation table with key \<open>k\<close>, and
  \<open>k\<close> is the key of \<open>r\<close>; and there are as many rows as there are pairs of a RINEX
  row and a navigation row with equal keys. So a row whose key occurs in one table only
  is in no row of the result.
\<close>

theorem merged_is_inner_join:
  assumes "read_file_csv flt intp (Some df_r) ft system NAV disk = (Inr df, disk')"
  shows "\<exists>df_n keyed. nav_table flt intp ft NAV = Inr (df_n, keyed) \<and>
           (\<forall>r n k. (\<exists>m\<in>set df. rinex m = r \<and> nav m = n \<and> day_seconds m = k)
                \<longleftrightarrow> (r \<in> set df_r \<and> (n, k) \<in> set keyed \<and> day_seconds_rinex (decimal_hour r) = k)) \<and>
           length df =
             (\<Sum>r\<leftarrow>df_r. length (filter (\<lambda>(n, k). k = day_seconds_rinex (decimal_hour r)) keyed))"
proof -
  from read_file_csv_triples [OF assms] obtain df_n keyed where
    k: "nav_table flt intp ft NAV = Inr (df_n, keyed)"
    and t: "map (\<lambda>m. (rinex m, nav m, day_seconds m)) df = merge_pairs df_r keyed
            \<or> map (\<lambda>m. (rinex m, nav m, day_seconds m)) df = rev (merge_pairs df_r keyed)"
    by blast
  have "set (map (\<lambda>m. (rinex m, nav m, day_seconds m)) df) = set (merge_pairs df_r keyed)"
    using t by (rule disjE) (simp_all only: set_rev)
  then have s: "(\<lambda>m. (rinex m, nav m, day_seconds m)) ` set df = set (merge_pairs df_r keyed)"
    by simp
  have "length (map (\<lambda>m. (rinex m, nav m, day_seconds m)) df) = length (merge_pairs df_r keyed)"
    using t by (rule disjE) (simp_all only: length_rev)
  then have l: "length df = length (merge_pairs df_r keyed)"
    by simp
  have "(\<exists>m\<in>set df. rinex m = r \<and> nav m = n \<and> day_seconds m = k)
         \<longleftrightarrow> (r \<in> set df_r \<and> (n, k) \<in> set keyed \<and> day_seconds_rinex (decimal_hour r) = k)" for r n k
  proof -
    have "(\<exists>m\<in>set df. rinex m = r \<and> nav m = n \<and> day_seconds m = k)
          \<longleftrightarrow> (r, n, k) \<in> (\<lambda>m. (rinex m, nav m, day_seconds m)) ` set df"
      by auto
    then show ?thesis
      unfolding s set_merge_pairs .
  qed
  with k l show ?thesis
    unfolding length_merge_pairs by blast
qed

lemma ex_nav_table:
  "nav_table digits_float no_int (Some ex_nav) ''TRINAV'' =
     Inr (ex_nav_dec, [(ex_nav_row, 5400), (ex_nav_row2, 5401)])"
  by code_simp

lemma ex_read:
  "read_file_csv digits_float no_int (Some ex_rinex) (Some ex_nav) ''FU1G4_XX'' ''TRINAV'' disk =
     (Inr [ex_drow], insert combined_csv disk)"
  by (simp add: read_file_csv_def ex_merged ex_diff Let_def)

lemma ex_drow_fields:
  "rinex ex_drow = hd ex_rinex" "nav ex_drow = ex_nav_row" "day_seconds ex_drow = 5400"
  "label ex_drow = 0"
  by (simp_all add: ex_drow_def ex_mrow_def mrow.extend_def)

theorem merged_is_inner_join_witness:
  "read_file_csv digits_float no_int (Some ex_rinex) (Some ex_nav) ''FU1G4_XX'' ''TRINAV'' {}
     = (Inr [ex_drow], {combined_csv}) \<and>
   nav_table digits_float no_int (Some ex_nav) ''TRINAV''
     = Inr (ex_nav_dec, [(ex_nav_row, 5400), (ex_nav_row2, 5401)]) \<and>
   (\<exists>m\<in>set [ex_drow]. rinex m = hd ex_rinex \<and> nav m = ex_nav_row \<and> day_seconds m = 5400) \<and>
   hd ex_rinex \<in> set ex_rinex \<and> day_seconds_rinex (decimal_hour (hd ex_rinex)) = 5400 \<and>
   \<not> (\<exists>m\<in>set [ex_drow]. nav m = ex_nav_row2 \<and> day_seconds m = 5401) \<and>
   length [ex_drow] = 1"
proof -
  from merged_is_inner_join [OF ex_read [of "{}"]] ex_nav_table
  have iff: "(\<exists>m\<in>set [ex_drow]. rinex m = r \<and> nav m = n \<and> day_seconds m = k)
                \<longleftrightarrow> (r \<in> set ex_rinex \<and> (n, k) \<in> set [(ex_nav_row, 5400), (ex_nav_row2, 5401)]
                      \<and> day_seconds_rinex (decimal_hour r) = k)" for r n k
    by auto
  have a: "\<exists>m\<in>set [ex_drow]. rinex m = hd ex_rinex \<and> nav m = ex_nav_row \<and> day_seconds m = 5400"
    by (simp add: ex_drow_fields)
  from a iff [of "hd ex_rinex" ex_nav_row 5400]
  have b: "hd ex_rinex \<in> set ex_rinex \<and> day_seconds_rinex (decimal_hour (hd ex_rinex)) = 5400"
    by blast
  have c: "\<not> (\<exists>m\<in>set [ex_drow]. nav m = ex_nav_row2 \<and> day_seconds m = 5401)"
    by (simp add: ex_drow_fields)
  show ?thesis
    using ex_read [of "{}"] ex_nav_table a b c by simp
qed

lemma diff_systems_lat_mean:
  assumes "diff_systems flt df_n df_m system NAV = Inr df"
  shows "lat_mean df = lat_mean df_m"
proof -
  have "map (\<lambda>m. latitude_decimal_degree (rinex m)) df = map (\<lambda>m. latitude_decimal_degree (rinex m)) df_m"
    using diff_systems_rows [OF assms] by (intro nth_equalityI) simp_all
  then show ?thesis
    by (simp add: lat_mean_def)
qed

text \<open>
  C4. In every row of the table that \<^verbatim>\<open>read_file_csv\<close> returns, the navigation
  cells in the latitude and the longitude column of the selected system are numbers, the
  latitude difference is the RINEX latitude minus the navigation latitude, times the
  latitude factor, and the longitude difference is the RINEX longitude minus the
  navigation longitude, times the longitude factor; the factors are those of the mean
  RINEX latitude of the table.
\<close>

theorem differences_in_metres:
  assumes "read_file_csv flt intp fr ft system NAV disk = (Inr df, disk')" and "m \<in> set df"
  shows "\<exists>df_n df_m nlat nlon.
           merged_table flt intp fr ft NAV = Inr (df_n, df_m) \<and>
           cell_of (column_name (columns df_n @ [''day_seconds'']) system [''LAT'', ''lat'', ''Lat''])
             (nav m) = Inr (Num nlat) \<and>
           cell_of (column_name (columns df_n @ [''day_seconds'']) system [''LON'', ''lon'', ''Lon''])
             (nav m) = Inr (Num nlon) \<and>
           lat_diff m = (latitude_decimal_degree (rinex m) - nlat) * fst (scale_factors (lat_mean df)) \<and>
           lon_diff m = (longitude_decimal_degree (rinex m) - nlon) * snd (scale_factors (lat_mean df))"
proof -
  from read_file_csv_Inr [OF assms(1)] obtain df_n df_m where
    mt: "merged_table flt intp fr ft NAV = Inr (df_n, df_m)"
    and d: "diff_systems flt df_n df_m system NAV = Inr df"
    by blast
  note R = diff_systems_rows [OF d]
  obtain i where i: "i < length df" "df ! i = m"
    using assms(2) by (auto simp: in_set_conv_nth)
  then have i': "i < length df_m"
    using R by simp
  from R i' obtain nlat nlon where
    "rinex (df ! i) = rinex (df_m ! i)" "nav (df ! i) = nav (df_m ! i)"
    "cell_of (column_name (columns df_n @ [''day_seconds'']) system [''LAT'', ''lat'', ''Lat''])
                   (nav (df_m ! i)) = Inr (Num nlat)"
    "cell_of (column_name (columns df_n @ [''day_seconds'']) system [''LON'', ''lon'', ''Lon''])
                   (nav (df_m ! i)) = Inr (Num nlon)"
    "lat_diff (df ! i)
       = (latitude_decimal_degree (rinex (df_m ! i)) - nlat) * fst (scale_factors (lat_mean df_m))"
    "lon_diff (df ! i)
       = (longitude_decimal_degree (rinex (df_m ! i)) - nlon) * snd (scale_factors (lat_mean df_m))"
    by blast
  then have "cell_of (column_name (columns df_n @ [''day_seconds'']) system [''LAT'', ''lat'', ''Lat''])
             (nav m) = Inr (Num nlat) \<and>
           cell_of (column_name (columns df_n @ [''day_seconds'']) system [''LON'', ''lon'', ''Lon''])
             (nav m) = Inr (Num nlon) \<and>
           lat_diff m = (latitude_decimal_degree (rinex m) - nlat) * fst (scale_factors (lat_mean df)) \<and>
           lon_diff m = (longitude_decimal_degree (rinex m) - nlon) * snd (scale_factors (lat_mean df))"
    unfolding diff_systems_lat_mean [OF d] i(2) [symmetric] by simp
  with mt show ?thesis by blast
qed

lemma ex_lat_mean_d: "lat_mean [ex_drow] = 10501 / 1000"
  by (simp add: lat_mean_def mean_def ex_drow_fields ex_rinex_def)

lemma ex_cells:
  "cell_of (column_name (columns ex_nav_dec @ [''day_seconds'']) ''FU1G4_XX'' [''LAT'', ''lat'', ''Lat''])
     ex_nav_row = Inr (Num (21 / 2))"
  "cell_of (column_name (columns ex_nav_dec @ [''day_seconds'']) ''FU1G4_XX'' [''LON'', ''lon'', ''Lon''])
     ex_nav_row = Inr (Num (- (2431 / 120)))"
  by code_simp+

theorem differences_in_metres_witness:
  "read_file_csv digits_float no_int (Some ex_rinex) (Some ex_nav) ''FU1G4_XX'' ''TRINAV'' {}
     = (Inr [ex_drow], {combined_csv}) \<and>
   ex_drow \<in> set [ex_drow] \<and>
   lat_diff ex_drow = (10501 / 1000 - 21 / 2) * fst (scale_factors (10501 / 1000)) \<and>
   lon_diff ex_drow = (- (81 / 4) - (- (2431 / 120))) * snd (scale_factors (10501 / 1000))"
proof -
  have r: "read_file_csv digits_float no_int (Some ex_rinex) (Some ex_nav) ''FU1G4_XX'' ''TRINAV'' {}
     = (Inr [ex_drow], {combined_csv})"
    using ex_read [of "{}"] by simp
  have m: "ex_drow \<in> set [ex_drow]"
    by simp
  from differences_in_metres [OF r m] obtain nlat nlon where
    c: "cell_of (column_name (columns ex_nav_dec @ [''day_seconds'']) ''FU1G4_XX'' [''LAT'', ''lat'', ''Lat''])
             (nav ex_drow) = Inr (Num nlat)"
    "cell_of (column_name (columns ex_nav_dec @ [''day_seconds'']) ''FU1G4_XX'' [''LON'', ''lon'', ''Lon''])
             (nav ex_drow) = Inr (Num nlon)"
    and v: "lat_diff ex_drow = (latitude_decimal_degree (rinex ex_drow) - nlat) * fst (scale_factors (lat_mean [ex_drow]))"
    "lon_diff ex_drow = (longitude_decimal_degree (rinex ex_drow) - nlon) * snd (scale_factors (lat_mean [ex_drow]))"
    unfolding ex_merged by auto
  have "nlat = 21 / 2" "nlon = - (2431 / 120)"
    using c ex_cells by (simp_all add: ex_drow_fields)
  with v have "lat_diff ex_drow = (10501 / 1000 - 21 / 2) * fst (scale_factors (10501 / 1000))"
    "lon_diff ex_drow = (- (81 / 4) - (- (2431 / 120))) * snd (scale_factors (10501 / 1000))"
    by (simp_all add: ex_lat_mean_d ex_drow_fields ex_rinex_def)
  with r m show ?thesis by blast
qed

subsection \<open>The logging period of the returned table\<close>











subsection \<open>One step of the loop\<close>

lemma read_file_csv_fst_disk:
  "fst (read_file_csv flt intp fr ft system NAV disk) = fst (read_file_csv flt intp fr ft system NAV disk')"
  unfolding read_file_csv_def by (auto simp: Let_def split: sum.splits prod.splits)



lemma read_system_fst_disk: "fst (read_system inp i system disk) = fst (read_system inp i system disk')"
  unfolding read_system_def by (rule read_file_csv_fst_disk)









subsection \<open>The loop\<close>








subsection \<open>The whole run\<close>



lemma png_last: "last (s @ ''.png'') = CHR ''g''"
  by simp











lemma failed_any_disk:
  assumes "fst (read_system inp k system disk0) = Inl e"
  shows "fst (read_system inp k system d) = Inl e"
  using assms read_system_fst_disk [of inp k system disk0 d] by simp

lemma failed_not_succeeds:
  assumes "fst (read_system inp k system disk0) = Inl e"
  shows "\<not> succeeds inp k system"
  using failed_any_disk [OF assms, of "{}"] by (simp add: succeeds_def)





subsection \<open>The statistics table\<close>





lemma count_in_stat:
  "\<not> contains ''count'' ''max''" "\<not> contains ''count'' ''min''" "\<not> contains ''count'' ''mean''"
  "\<not> contains ''count'' ''std''" "contains ''count'' ''count''"
  by simp_all




end
